theory Spec2Isabelle
  imports Main
begin

section \<open>Python values and exceptions\<close>

text \<open>
  The values a selector mapping holds (keys and constraint values alike): \<open>None\<close>,
  booleans, integers, strings and compiled regular expressions (\<open>re._pattern_type\<close>,
  represented by the pattern's source text).
\<close>

datatype pyval = PyNone | PyBool bool | PyInt int | PyStr string | PyRegex string

text \<open>Python truthiness of such a value (a compiled pattern is an ordinary object: truthy).\<close>

fun truthy :: "pyval \<Rightarrow> bool" where
  "truthy PyNone = False"
| "truthy (PyBool b) = b"
| "truthy (PyInt i) = (i \<noteq> 0)"
| "truthy (PyStr s) = (s \<noteq> [])"
| "truthy (PyRegex r) = True"

text \<open>\<open>isinstance(v, re._pattern_type)\<close>.\<close>

fun is_pattern :: "pyval \<Rightarrow> bool" where
  "is_pattern (PyRegex r) = True"
| "is_pattern v = False"

text \<open>
  The exceptions the modelled code raises or handles. The two selenium exceptions of
  interest are \<open>StaleElementReferenceException\<close> and everything else the driver may
  raise (\<open>DriverException\<close>); the others are the framework's own classes and Python's
  built-in \<open>TypeError\<close> and \<open>AttributeError\<close>. The framework's exception module is
  not among the source files: its classes are taken as the source imports them, by name,
  with no class of the list a subclass of another.
\<close>

datatype exn =
    StaleElementReferenceException
  | DriverException string
  | Error string
  | UnknownObjectException string
  | UnknownFrameException string
  | ObjectDisabledException string
  | ObjectReadOnlyException string
  | TimeoutError
  | TypeError
  | AttributeError

section \<open>Selector mappings\<close>

text \<open>
  A selector is a Python \<open>dict\<close>: an association list in insertion order whose keys are
  pairwise different. Iterating a dict yields its keys.
\<close>

type_synonym selector = "(pyval \<times> pyval) list"

definition dict_keys :: "selector \<Rightarrow> pyval list" where
  "dict_keys d = map fst d"

text \<open>\<open>d.pop(key, default)\<close>: the value stored under the key (or the default) and the dict without the key.\<close>

definition dict_pop :: "pyval \<Rightarrow> pyval \<Rightarrow> selector \<Rightarrow> pyval \<times> selector" where
  "dict_pop k dflt d =
     ((case map_of d k of None \<Rightarrow> dflt | Some v \<Rightarrow> v), filter (\<lambda>kv. fst kv \<noteq> k) d)"

text \<open>\<open>d.get(key)\<close>, and whether the dict holds a truthy value under a key.\<close>

definition dict_get :: "pyval \<Rightarrow> selector \<Rightarrow> pyval option" where
  "dict_get k d = map_of d k"

definition has_truthy :: "pyval \<Rightarrow> selector \<Rightarrow> bool" where
  "has_truthy k d = (case dict_get k d of None \<Rightarrow> False | Some v \<Rightarrow> truthy v)"

text \<open>\<open>sep.join(xs)\<close>.\<close>

fun join :: "string \<Rightarrow> string list \<Rightarrow> string" where
  "join sep [] = []"
| "join sep [x] = x"
| "join sep (x # y # ys) = x @ sep @ join sep (y # ys)"

section \<open>The row selector builder\<close>

text \<open>
  \<open>SelectorBuilder._build_wd_selector\<close> of \<open>locators/row/selector_builder.py\<close>. The
  selector dict is mutated in place, so the model returns it beside the result. Two
  collaborators are not part of the file and are parameters: \<open>scope_tag\<close> is the outcome
  of evaluating \<open>self.query_scope.tag_name.lower()\<close>, and \<open>attribute_expression\<close> is
  \<open>self.xpath_builder.attribute_expression(None, selectors)\<close>, which may raise, may
  return a falsy value (\<open>None\<close> or the empty string) and may consume entries of the
  dict. The result \<open>Inr None\<close> is the Python \<open>return None\<close>; \<open>Inr (Some [l, q])\<close> is the
  returned two-element list. The \<open>logging.debug\<close> call has no effect on the result.
\<close>

definition build_wd_selector ::
  "(exn + string) \<Rightarrow> (selector \<Rightarrow> (exn + string option) \<times> selector) \<Rightarrow> selector
     \<Rightarrow> (exn + string list option) \<times> selector" where
  "build_wd_selector scope_tag attribute_expression selectors =
     (if list_ex is_pattern (dict_keys selectors) then (Inr None, selectors)
      else
        (case dict_pop (PyStr ''tag_name'') PyNone selectors of
          (tag, selectors1) \<Rightarrow>
            if \<not> truthy tag then (Inl (Error ''internal error: no tag_name?!''), selectors1)
            else
              (case scope_tag of
                Inl e \<Rightarrow> (Inl e, selectors1)
              | Inr scope_tag_lower \<Rightarrow>
                  (let expressions =
                         [''./tr''] @
                         (if scope_tag_lower \<notin> set [''tbody'', ''tfoot'', ''thead'']
                          then [''./body/tr'', ''./thead/tr'', ''./tfoot/tr''] else [])
                   in
                     (case attribute_expression selectors1 of
                       (Inl e, selectors2) \<Rightarrow> (Inl e, selectors2)
                     | (Inr attr_expr, selectors2) \<Rightarrow>
                         (let expressions' =
                                (case attr_expr of
                                  None \<Rightarrow> expressions
                                | Some a \<Rightarrow>
                                    if a = [] then expressions
                                    else map (\<lambda>e. e @ ''['' @ a @ '']'') expressions);
                              xpath = join '' | '' expressions'
                          in (Inr (Some [''xpath'', xpath]), selectors2)))))))"

section \<open>Positional index of a compiled query\<close>

text \<open>Python's \<open>str\<close> of an integer: decimal digits, with a minus sign when negative.\<close>

fun str_nat :: "nat \<Rightarrow> string" where
  "str_nat n = (if n < 10 then [''0123456789'' ! n] else str_nat (n div 10) @ [''0123456789'' ! (n mod 10)])"

declare str_nat.simps [simp del]

definition str_int :: "int \<Rightarrow> string" where
  "str_int i = (if i < 0 then ''-'' @ str_nat (nat (- i)) else str_nat (nat i))"

text \<open>
  Modelled from the spec: the index handling of the element selector builder (the
  \<open>locators/element\<close> and \<open>locators/text_field\<close> builders and their XPath support are not
  among the source files; only their tests are). Following section 4.1 of the spec and
  the expected queries of the tests: \<open>index\<close> is not a predicate but a positional wrapper
  around the whole expression; \<open>0\<close> leaves the expression as it is, a positive index
  wraps it with the 1-based position \<open>index + 1\<close>, \<open>-1\<close> with \<open>last()\<close>, any other negative
  index with \<open>last() - (|index| - 1)\<close>; a value that is not an integer fails with a type
  mismatch.
\<close>

definition add_index :: "string \<Rightarrow> pyval \<Rightarrow> exn + string" where
  "add_index xpath index =
     (case index of
        PyInt i \<Rightarrow>
          if i = 0 then Inr xpath
          else if 0 < i then Inr (''('' @ xpath @ '')['' @ str_int (i + 1) @ '']'')
          else if i = - 1 then Inr (''('' @ xpath @ '')[last()]'')
          else Inr (''('' @ xpath @ '')[last()-'' @ str_int (abs i - 1) @ '']'')
      | _ \<Rightarrow> Inl TypeError)"

section \<open>Actions: state passing with exceptions\<close>

text \<open>
  A method of the code is an action: from a state it returns a value or raises, and
  leaves a state. \<open>and_then\<close> is sequencing (an exception skips the rest),
  \<open>try_except\<close> is \<open>try: ... except C: ...\<close> for the exception class recognised by the
  predicate, \<open>try_finally\<close> is \<open>try: ... finally: ...\<close> for a cleanup that does not raise.
\<close>

type_synonym ('s, 'a) act = "'s \<Rightarrow> (exn + 'a) \<times> 's"

definition returns :: "'a \<Rightarrow> ('s, 'a) act" where
  "returns v = (\<lambda>s. (Inr v, s))"

definition raises :: "exn \<Rightarrow> ('s, 'a) act" where
  "raises e = (\<lambda>s. (Inl e, s))"

definition and_then :: "('s, 'a) act \<Rightarrow> ('a \<Rightarrow> ('s, 'b) act) \<Rightarrow> ('s, 'b) act" where
  "and_then m f = (\<lambda>s. case m s of (Inl e, s') \<Rightarrow> (Inl e, s') | (Inr v, s') \<Rightarrow> f v s')"

definition try_except ::
  "('s, 'a) act \<Rightarrow> (exn \<Rightarrow> bool) \<Rightarrow> (exn \<Rightarrow> ('s, 'a) act) \<Rightarrow> ('s, 'a) act" where
  "try_except body caught handler =
     (\<lambda>s. case body s of
            (Inl e, s') \<Rightarrow> if caught e then handler e s' else (Inl e, s')
          | (Inr v, s') \<Rightarrow> (Inr v, s'))"

definition try_finally :: "('s, 'a) act \<Rightarrow> ('s \<Rightarrow> 's) \<Rightarrow> ('s, 'a) act" where
  "try_finally body cleanup = (\<lambda>s. case body s of (r, s') \<Rightarrow> (r, cleanup s'))"

text \<open>The \<open>except\<close> clauses of \<open>element.py\<close>, as predicates on the raised exception.\<close>

fun is_stale :: "exn \<Rightarrow> bool" where
  "is_stale StaleElementReferenceException = True"
| "is_stale e = False"

fun is_unknown :: "exn \<Rightarrow> bool" where
  "is_unknown (UnknownObjectException m) = True"
| "is_unknown (UnknownFrameException m) = True"
| "is_unknown e = False"

fun is_timeout :: "exn \<Rightarrow> bool" where
  "is_timeout TimeoutError = True"
| "is_timeout e = False"


section \<open>The element and its collaborators\<close>

text \<open>
  The state an \<open>Element\<close> method reads and writes: the element's own fields
  (\<open>self.element\<close>, the cached native handle or \<open>None\<close>; \<open>self.selector\<close>;
  \<open>self.keyword\<close>), the module globals \<open>Wait.timer\<close>, \<open>watir_snake.relaxed_locate\<close> and
  \<open>watir_snake.default_timeout\<close>, the warnings issued through \<open>warn\<close>, and the rest of the
  world (the browser, the page, the clock, the owning scope's objects). A native handle
  is a driver object without \<open>__bool__\<close> or \<open>__len__\<close>: \<open>self.element\<close> is truthy exactly
  when it is not \<open>None\<close>.
\<close>

record ('h, 't, 'w) state =
  element :: "'h option"
  selector :: selector
  keyword :: "string option"
  wait_timer :: 't
  relaxed_locate :: bool
  default_timeout :: int
  warnings :: "string list"
  world :: 'w

text \<open>
  What \<open>wait_until\<close> is handed: the source passes a callable in \<open>wait_for_writable\<close>
  (a lambda) and the value of a property, evaluated at the call, in \<open>wait_for_exists\<close>,
  \<open>wait_for_present\<close> and \<open>wait_for_enabled\<close> (\<open>self.exists\<close> and \<open>self.enabled\<close> are
  properties).
\<close>

datatype 's wait_arg = Callable "('s, bool) act" | Value bool

text \<open>
  The collaborators of \<open>element.py\<close> that are not part of the file, as parameters:
  the owning scope (\<open>query_scope\<close>, a browser or another element of any subclass), the
  locator classes, \<open>Waitable.wait_until\<close>, the driver's wire call \<open>self.element.enabled\<close>,
  the \<open>readonly\<close> attribute of the concrete element class (an evaluation that raises
  \<open>AttributeError\<close> where the class has none), Python's formatting of a dict, and the
  \<open>Timer\<close> class (its constructor, which may read the clock, its \<open>locked\<close> property and
  its \<open>reset\<close> method; the three are taken to return without raising).
\<close>

record ('h, 't, 'w) env =
  class_name :: string
  format_dict :: "selector \<Rightarrow> string"
  scope_selector_string :: "('h, 't, 'w) state \<Rightarrow> string option"
  scope_is_iframe :: bool
  scope_switch_to :: "(('h, 't, 'w) state, unit) act"
  scope_assert_exists :: "(('h, 't, 'w) state, unit) act"
  scope_wait_for_exists :: "(('h, 't, 'w) state, unit) act"
  scope_wait_for_present :: "(('h, 't, 'w) state, unit) act"
  locator_locate :: "(('h, 't, 'w) state, 'h option) act"
  wait_until :: "('h, 't, 'w) state wait_arg \<Rightarrow> (('h, 't, 'w) state, unit) act"
  wire_enabled :: "'h \<Rightarrow> (('h, 't, 'w) state, bool) act"
  readonly :: "(('h, 't, 'w) state, pyval) act"
  timer_new :: "int \<Rightarrow> ('h, 't, 'w) state \<Rightarrow> 't"
  timer_locked :: "'t \<Rightarrow> pyval"
  timer_reset :: "'t \<Rightarrow> 't"

subsection \<open>Descriptions used in messages\<close>

text \<open>
  \<open>selector_string\<close>: the scope's own string is absent (\<open>None\<close>) when the scope is the
  browser.
\<close>

definition selector_string :: "('h, 't, 'w) env \<Rightarrow> ('h, 't, 'w) state \<Rightarrow> string" where
  "selector_string env s =
     (case scope_selector_string env s of
        None \<Rightarrow> format_dict env (selector s)
      | Some outer \<Rightarrow> outer @ '' --> '' @ format_dict env (selector s))"

text \<open>\<open>__repr__\<close>, which \<open>format\<close> uses for \<open>self\<close>.\<close>

definition repr :: "('h, 't, 'w) env \<Rightarrow> ('h, 't, 'w) state \<Rightarrow> string" where
  "repr env s =
     ''#<#'' @ class_name env @ '': '' @
     (case keyword s of
        None \<Rightarrow> []
      | Some k \<Rightarrow> if k = [] then [] else ''keyword: '' @ k @ '' '') @
     ''located: '' @ (if element s \<noteq> None then ''True'' else ''False'') @ ''; '' @
     (if selector s = [] then ''{element: (selenium element)}'' else selector_string env s) @
     ''>''"

definition unable_to_locate :: "string \<Rightarrow> string" where
  "unable_to_locate r = ''unable to locate element: '' @ r"

definition timed_out_locating :: "int \<Rightarrow> string \<Rightarrow> string" where
  "timed_out_locating t r =
     ''timed out after '' @ str_int t @ '' seconds, waiting for '' @ r @ '' to be located''"



definition slept_warning :: "string \<Rightarrow> string" where
  "slept_warning alternative =
     ''This code has slept for the duration of the default timeout waiting for an '' @
     ''Element to exist. If the test is still passing, consider using '' @ alternative @
     '' instead of catching UnknownObjectException''"

section \<open>The methods of Element\<close>

subsection \<open>Staleness and resolution\<close>

text \<open>
  The \<open>stale\<close> property. The \<open>raise Error\<close> stands inside the \<open>try\<close>, whose only
  \<open>except\<close> clause is for the driver's staleness exception.
\<close>

definition stale :: "('h, 't, 'w) env \<Rightarrow> (('h, 't, 'w) state, bool) act" where
  "stale env =
     try_except
       (\<lambda>s. case element s of
              None \<Rightarrow> raises (Error ''Can not check staleness of unused element'') s
            | Some h \<Rightarrow> and_then (wire_enabled env h) (\<lambda>_. returns False) s)
       is_stale
       (\<lambda>e. returns True)"

definition reset :: "(('h, 't, 'w) state, unit) act" where
  "reset = (\<lambda>s. (Inr (), s\<lparr>element := None\<rparr>))"

text \<open>\<open>_ensure_context\<close>: switch into an owning frame, or make sure the owning scope exists.\<close>

definition ensure_context :: "('h, 't, 'w) env \<Rightarrow> (('h, 't, 'w) state, unit) act" where
  "ensure_context env =
     (if scope_is_iframe env then scope_switch_to env else scope_assert_exists env)"

text \<open>
  \<open>locate\<close>: the context first, then the locator built for the element's class
  (\<open>locator_locate\<close> stands for building the validator, the selector builder and the
  locator, and for \<open>locator.locate()\<close>).
\<close>

definition locate :: "('h, 't, 'w) env \<Rightarrow> (('h, 't, 'w) state, 'h option) act" where
  "locate env = and_then (ensure_context env) (\<lambda>_. locator_locate env)"

definition assert_element_found :: "('h, 't, 'w) env \<Rightarrow> (('h, 't, 'w) state, unit) act" where
  "assert_element_found env =
     (\<lambda>s. if element s = None
          then raises (UnknownObjectException (unable_to_locate (repr env s))) s
          else returns () s)"

text \<open>\<open>self.element = self.locate()\<close>.\<close>

definition assign_located :: "('h, 't, 'w) env \<Rightarrow> (('h, 't, 'w) state, unit) act" where
  "assign_located env = and_then (locate env) (\<lambda>found s. (Inr (), s\<lparr>element := found\<rparr>))"

text \<open>
  \<open>assert_exists\<close>. The three branches compute whether the method goes on to
  \<open>assert_element_found\<close> (\<open>True\<close>) or has returned (\<open>False\<close>, the \<open>return\<close> of the
  \<open>elif\<close> branch).
\<close>

definition assert_exists :: "('h, 't, 'w) env \<Rightarrow> (('h, 't, 'w) state, unit) act" where
  "assert_exists env =
     (\<lambda>s. and_then
            (if element s \<noteq> None \<and> selector s = [] then
               and_then (ensure_context env)
                 (\<lambda>_. and_then (stale env)
                    (\<lambda>is_stale_now.
                       if is_stale_now then and_then reset (\<lambda>_. returns True)
                       else returns True))
             else if element s \<noteq> None then
               and_then (stale env)
                 (\<lambda>is_stale_now.
                    if \<not> is_stale_now then returns False
                    else and_then (assign_located env) (\<lambda>_. returns True))
             else and_then (assign_located env) (\<lambda>_. returns True))
            (\<lambda>proceed. if proceed then assert_element_found env else returns ())
            s)"

text \<open>The \<open>exists\<close> property.\<close>

definition exists :: "('h, 't, 'w) env \<Rightarrow> (('h, 't, 'w) state, bool) act" where
  "exists env =
     try_except (and_then (assert_exists env) (\<lambda>_. returns True)) is_unknown
       (\<lambda>e. returns False)"

subsection \<open>Waiting for existence and presence\<close>

text \<open>
  The handler of \<open>TimeoutError\<close> shared by \<open>wait_for_exists\<close> and \<open>wait_for_present\<close>
  (they differ in the method the warning recommends): warn when the default timeout is
  not zero, then raise the unknown-object exception.
\<close>

definition locating_timed_out ::
  "('h, 't, 'w) env \<Rightarrow> string \<Rightarrow> (('h, 't, 'w) state, unit) act" where
  "locating_timed_out env alternative =
     (\<lambda>s. let s' = (if default_timeout s \<noteq> 0
                     then s\<lparr>warnings := warnings s @ [slept_warning alternative]\<rparr> else s)
          in raises (UnknownObjectException
                       (timed_out_locating (default_timeout s') (repr env s'))) s')"

definition wait_for_exists :: "('h, 't, 'w) env \<Rightarrow> (('h, 't, 'w) state, unit) act" where
  "wait_for_exists env =
     (\<lambda>s. if \<not> relaxed_locate s then assert_exists env s
          else
            and_then (exists env)
              (\<lambda>found.
                 if found then returns ()
                 else
                   try_except
                     (and_then (scope_wait_for_exists env)
                        (\<lambda>_. and_then (exists env) (\<lambda>b. wait_until env (Value b))))
                     is_timeout
                     (\<lambda>e. locating_timed_out env ''Element#exists''))
              s)"


subsection \<open>Calling the driver\<close>

text \<open>
  The two timer steps of \<open>_element_call\<close>: before the \<open>try\<close>, a new \<open>Timer\<close> replaces
  \<open>Wait.timer\<close> when \<open>Wait.timer.locked is None\<close>; in the \<open>finally\<close>, the timer then
  current is reset under the same test.
\<close>

definition install_timer :: "('h, 't, 'w) env \<Rightarrow> ('h, 't, 'w) state \<Rightarrow> ('h, 't, 'w) state" where
  "install_timer env s =
     (if timer_locked env (wait_timer s) = PyNone
      then s\<lparr>wait_timer := timer_new env (default_timeout s) s\<rparr> else s)"

definition release_timer :: "('h, 't, 'w) env \<Rightarrow> ('h, 't, 'w) state \<Rightarrow> ('h, 't, 'w) state" where
  "release_timer env s =
     (if timer_locked env (wait_timer s) = PyNone
      then s\<lparr>wait_timer := timer_reset env (wait_timer s)\<rparr> else s)"

text \<open>
  \<open>_element_call(method, exist_check=None)\<close>; an absent \<open>exist_check\<close> is
  \<open>self.wait_for_exists\<close>. The \<open>try\<close> body is the check followed by the method; the
  \<open>except StaleElementReferenceException\<close> body is the same two calls, outside any
  handler.
\<close>

definition element_call ::
  "('h, 't, 'w) env \<Rightarrow> (('h, 't, 'w) state, 'a) act
     \<Rightarrow> (('h, 't, 'w) state, unit) act option \<Rightarrow> (('h, 't, 'w) state, 'a) act" where
  "element_call env method exist_check =
     (let check = (case exist_check of None \<Rightarrow> wait_for_exists env | Some c \<Rightarrow> c) in
        (\<lambda>s. try_finally
               (try_except (and_then check (\<lambda>_. method)) is_stale
                  (\<lambda>e. and_then check (\<lambda>_. method)))
               (release_timer env)
               (install_timer env s)))"



subsection \<open>Enabled and writable\<close>







section \<open>A simulated page\<close>

text \<open>
  A small concrete instance of the collaborators, used to run the methods on explicit
  inputs. The world is a clock that every driver round trip advances. The locator finds
  the element (handle 7) from clock 2 on. Handle 0 is detached from the page, handle 5
  belongs to a disabled element, and every wire call on handle 13 fails with a driver
  error that is not about staleness. \<open>wait_until\<close> gives up at once on a false
  condition. The timer holds its deadline, or nothing, and reports the deadline as its
  lock.
\<close>


definition tick :: "('h, 't, nat) state \<Rightarrow> ('h, 't, nat) state" where
  "tick s = s\<lparr>world := world s + 1\<rparr>"

definition sim_env :: "(nat, int option, nat) env" where
  "sim_env =
     \<lparr> class_name = ''Element'',
       format_dict = (\<lambda>d. ''{selector}''),
       scope_selector_string = (\<lambda>s. None),
       scope_is_iframe = False,
       scope_switch_to = returns (),
       scope_assert_exists = returns (),
       scope_wait_for_exists = returns (),
       scope_wait_for_present = returns (),
       locator_locate = (\<lambda>s. (Inr (if 2 \<le> world s then Some 7 else None), tick s)),
       wait_until =
         (\<lambda>arg. case arg of
                  Value b \<Rightarrow> if b then returns () else raises TimeoutError
                | Callable f \<Rightarrow> and_then f (\<lambda>b. if b then returns () else raises TimeoutError)),
       wire_enabled =
         (\<lambda>h s. (if h = 0 then Inl StaleElementReferenceException
                  else if h = 13 then Inl (DriverException ''no such window'')
                  else Inr (h \<noteq> 5), tick s)),
       readonly = returns (PyBool True),
       timer_new = (\<lambda>t s. Some (int (world s) + t)),
       timer_locked = (\<lambda>t. case t of None \<Rightarrow> PyNone | Some d \<Rightarrow> PyInt d),
       timer_reset = (\<lambda>t. None) \<rparr>"

definition sim_state :: "(nat, int option, nat) state" where
  "sim_state =
     \<lparr> element = None,
       selector = [(PyStr ''id'', PyStr ''foo'')],
       keyword = None,
       wait_timer = None,
       relaxed_locate = True,
       default_timeout = 2,
       warnings = [],
       world = 0 \<rparr>"

text \<open>An action that fails with a stale handle on its first run (clock 0) and succeeds later.\<close>

definition flaky :: "((nat, int option, nat) state, bool) act" where
  "flaky = (\<lambda>s. (if world s = 0 then Inl StaleElementReferenceException else Inr True, tick s))"

text \<open>An action on a handle that is detached for good: every run raises the staleness exception.\<close>

definition detached :: "((nat, int option, nat) state, bool) act" where
  "detached = (\<lambda>s. (Inl StaleElementReferenceException, tick s))"

text \<open>An action that reports the timer it runs under.\<close>

definition current_timer :: "(('h, 't, 'w) state, 't) act" where
  "current_timer = (\<lambda>s. (Inr (wait_timer s), s))"

text \<open>The same page with a timer class whose \<open>locked\<close> is always \<open>None\<close>.\<close>

definition unlocking_env :: "(nat, int option, nat) env" where
  "unlocking_env = sim_env\<lparr>timer_locked := (\<lambda>t. PyNone)\<rparr>"

section \<open>Helper facts\<close>

lemma str_nat_digit: "n < 10 \<Longrightarrow> str_nat n = [''0123456789'' ! n]"
  by (simp add: str_nat.simps)

lemmas act_defs = returns_def raises_def and_then_def try_except_def try_finally_def

lemmas resolve_defs =
  stale_def reset_def ensure_context_def locate_def assert_element_found_def assign_located_def
  assert_exists_def exists_def

lemmas call_defs = install_timer_def release_timer_def element_call_def

lemmas repr_defs = repr_def selector_string_def str_int_def str_nat_digit

lemma sim_env_simps:
  "class_name sim_env = ''Element''"
  "format_dict sim_env d = ''{selector}''"
  "scope_selector_string sim_env s = None"
  "scope_is_iframe sim_env = False"
  "scope_assert_exists sim_env s = (Inr (), s)"
  "scope_wait_for_exists sim_env s = (Inr (), s)"
  "scope_wait_for_present sim_env s = (Inr (), s)"
  "locator_locate sim_env s = (Inr (if 2 \<le> world s then Some 7 else None), tick s)"
  "wait_until sim_env (Value b) s = (if b then Inr () else Inl TimeoutError, s)"
  "wait_until sim_env (Callable f) s =
     (case f s of (Inl e, s') \<Rightarrow> (Inl e, s')
      | (Inr b, s') \<Rightarrow> (if b then Inr () else Inl TimeoutError, s'))"
  "wire_enabled sim_env h s =
     (if h = 0 then Inl StaleElementReferenceException
      else if h = 13 then Inl (DriverException ''no such window'')
      else Inr (h \<noteq> 5), tick s)"
  "readonly sim_env s = (Inr (PyBool True), s)"
  "timer_new sim_env t s = Some (int (world s) + t)"
  "timer_locked sim_env None = PyNone"
  "timer_locked sim_env (Some deadline) = PyInt deadline"
  "timer_reset sim_env tm = None"
  by (simp_all add: sim_env_def act_defs split: prod.splits sum.splits)

lemma sim_state_simps:
  "element sim_state = None"
  "selector sim_state = [(PyStr ''id'', PyStr ''foo'')]"
  "keyword sim_state = None"
  "wait_timer sim_state = None"
  "relaxed_locate sim_state = True"
  "default_timeout sim_state = 2"
  "warnings sim_state = []"
  "world sim_state = 0"
  by (simp_all add: sim_state_def)

lemma flaky_simps:
  "flaky s = (if world s = 0 then Inl StaleElementReferenceException else Inr True, tick s)"
  by (simp add: flaky_def)

lemma detached_simps:
  "detached s = (Inl StaleElementReferenceException, tick s)"
  by (simp add: detached_def)

lemma unlocking_env_simps:
  "timer_locked unlocking_env tm = PyNone"
  "timer_new unlocking_env t s = Some (int (world s) + t)"
  "timer_reset unlocking_env tm = None"
  by (simp_all add: unlocking_env_def sim_env_def)

lemmas sim_eval = sim_env_simps sim_state_def tick_def act_defs resolve_defs call_defs

lemma stale_update_irrelevant:
  "stale (env\<lparr>locator_locate := l\<rparr>) = stale env"
  "stale (env\<lparr>scope_assert_exists := c\<rparr>) = stale env"
  "stale (env\<lparr>scope_switch_to := c\<rparr>) = stale env"
  by (simp_all add: stale_def cong: option.case_cong)

lemma assert_exists_unresolved:
  "element s = None \<Longrightarrow>
     assert_exists env s =
       (case locate env s of
          (Inl e, s1) \<Rightarrow> (Inl e, s1)
        | (Inr found, s1) \<Rightarrow> assert_element_found env (s1\<lparr>element := found\<rparr>))"
  by (simp add: assert_exists_def assign_located_def act_defs split: prod.splits sum.splits)

lemma assert_exists_cached:
  "element s = Some h \<Longrightarrow> selector s \<noteq> [] \<Longrightarrow>
     assert_exists env s =
       (case stale env s of
          (Inl e, s0) \<Rightarrow> (Inl e, s0)
        | (Inr is_stale_now, s0) \<Rightarrow>
            if \<not> is_stale_now then (Inr (), s0)
            else (case locate env s0 of
                    (Inl e, s1) \<Rightarrow> (Inl e, s1)
                  | (Inr found, s1) \<Rightarrow> assert_element_found env (s1\<lparr>element := found\<rparr>)))"
  by (simp add: assert_exists_def assign_located_def act_defs split: prod.splits sum.splits)

lemma assert_element_found_cases:
  "element s = None \<Longrightarrow>
     assert_element_found env s = (Inl (UnknownObjectException (unable_to_locate (repr env s))), s)"
  "element s = Some h \<Longrightarrow> assert_element_found env s = (Inr (), s)"
  by (simp_all add: assert_element_found_def act_defs)

lemma assert_exists_ignores_waiting:
  "assert_exists (env\<lparr>wait_until := w, scope_wait_for_exists := q\<rparr>) = assert_exists env"
  by (simp add: assert_exists_def stale_def ensure_context_def assign_located_def locate_def
        assert_element_found_def repr_def selector_string_def
        cong: option.case_cong if_cong)


section \<open>The element call and its retry\<close>

text \<open>
  Claim C1: every action executed through \<open>_element_call\<close> runs the exist-check and then
  the action. Writing \<open>check\<close> for the exist-check in force (\<open>wait_for_exists\<close> when none is
  given): when both succeed the action's value is returned; when the action raises the
  driver's staleness exception, the check and the action are run once more, from the
  state the failed action left, and whatever that second attempt yields is the outcome of
  the call, a second staleness exception included; any other exception of the check or of
  the action propagates without a retry. A staleness exception raised by the first check
  is handled the same way. In every case the call ends with the timer step of the
  \<open>finally\<close> clause.
\<close>

theorem element_call_retries_once:
  fixes env :: "('h, 't, 'w) env" and action :: "(('h, 't, 'w) state, 'a) act"
  assumes check: "check = (case exist_check of None \<Rightarrow> wait_for_exists env | Some c \<Rightarrow> c)"
  shows "(check (install_timer env s) = (Inr u, s1) \<and> action s1 = (Inr v, s2) \<longrightarrow>
           element_call env action exist_check s = (Inr v, release_timer env s2))
    \<and> (check (install_timer env s) = (Inr u, s1) \<and> action s1 = (Inl StaleElementReferenceException, s2) \<longrightarrow>
           element_call env action exist_check s =
             (case check s2 of
                (Inl e, s3) \<Rightarrow> (Inl e, release_timer env s3)
              | (Inr u', s3) \<Rightarrow> (case action s3 of (r, s4) \<Rightarrow> (r, release_timer env s4))))
    \<and> (check (install_timer env s) = (Inr u, s1) \<and> action s1 = (Inl e, s2) \<and> e \<noteq> StaleElementReferenceException \<longrightarrow>
           element_call env action exist_check s = (Inl e, release_timer env s2))
    \<and> (check (install_timer env s) = (Inl e, s1) \<and> e \<noteq> StaleElementReferenceException \<longrightarrow>
           element_call env action exist_check s = (Inl e, release_timer env s1))
    \<and> (check (install_timer env s) = (Inl StaleElementReferenceException, s1) \<longrightarrow>
           element_call env action exist_check s =
             (case check s1 of
                (Inl e, s3) \<Rightarrow> (Inl e, release_timer env s3)
              | (Inr u', s3) \<Rightarrow> (case action s3 of (r, s4) \<Rightarrow> (r, release_timer env s4))))"
  using check
  by (cases e; simp add: element_call_def act_defs Let_def split: prod.splits sum.splits)

theorem element_call_retries_once_witness:
  "returns () (install_timer sim_env sim_state) = (Inr (), sim_state\<lparr>wait_timer := Some 2\<rparr>)
 \<and> flaky (sim_state\<lparr>wait_timer := Some 2\<rparr>) =
     (Inl StaleElementReferenceException, sim_state\<lparr>wait_timer := Some 2, world := 1\<rparr>)
 \<and> element_call sim_env flaky (Some (returns ())) sim_state =
     (Inr True, sim_state\<lparr>wait_timer := Some 2, world := 2\<rparr>)
 \<and> detached (sim_state\<lparr>wait_timer := Some 2\<rparr>) =
     (Inl StaleElementReferenceException, sim_state\<lparr>wait_timer := Some 2, world := 1\<rparr>)
 \<and> element_call sim_env detached (Some (returns ())) sim_state =
     (Inl StaleElementReferenceException, sim_state\<lparr>wait_timer := Some 2, world := 2\<rparr>)"
proof -
  have first_check:
    "returns () (install_timer sim_env sim_state) = (Inr (), sim_state\<lparr>wait_timer := Some 2\<rparr>)"
    by (simp add: install_timer_def returns_def sim_env_simps sim_state_simps flaky_simps detached_simps tick_def)
  have first_run: "flaky (sim_state\<lparr>wait_timer := Some 2\<rparr>) =
      (Inl StaleElementReferenceException, sim_state\<lparr>wait_timer := Some 2, world := 1\<rparr>)"
    by (simp add: sim_env_simps sim_state_simps flaky_simps detached_simps tick_def)
  have "element_call sim_env flaky (Some (returns ())) sim_state =
      (case returns () (sim_state\<lparr>wait_timer := Some 2, world := 1\<rparr>) of
         (Inl e, s3) \<Rightarrow> (Inl e, release_timer sim_env s3)
       | (Inr u', s3) \<Rightarrow> (case flaky s3 of (r, s4) \<Rightarrow> (r, release_timer sim_env s4)))"
    using element_call_retries_once [where exist_check = "Some (returns ())"
        and check = "returns ()" and env = sim_env and action = flaky and s = sim_state and u = "()"
        and ?s1.0 = "sim_state\<lparr>wait_timer := Some 2\<rparr>"
        and ?s2.0 = "sim_state\<lparr>wait_timer := Some 2, world := 1\<rparr>"]
      first_check first_run
    by simp
  then have recovered: "element_call sim_env flaky (Some (returns ())) sim_state =
      (Inr True, sim_state\<lparr>wait_timer := Some 2, world := 2\<rparr>)"
    by (simp add: returns_def release_timer_def sim_env_simps sim_state_simps flaky_simps detached_simps tick_def)
  have lost_run: "detached (sim_state\<lparr>wait_timer := Some 2\<rparr>) =
      (Inl StaleElementReferenceException, sim_state\<lparr>wait_timer := Some 2, world := 1\<rparr>)"
    by (simp add: sim_env_simps sim_state_simps flaky_simps detached_simps tick_def)
  have "element_call sim_env detached (Some (returns ())) sim_state =
      (case returns () (sim_state\<lparr>wait_timer := Some 2, world := 1\<rparr>) of
         (Inl e, s3) \<Rightarrow> (Inl e, release_timer sim_env s3)
       | (Inr u', s3) \<Rightarrow> (case detached s3 of (r, s4) \<Rightarrow> (r, release_timer sim_env s4)))"
    using element_call_retries_once [where exist_check = "Some (returns ())"
        and check = "returns ()" and env = sim_env and action = detached and s = sim_state
        and u = "()" and ?s1.0 = "sim_state\<lparr>wait_timer := Some 2\<rparr>"
        and ?s2.0 = "sim_state\<lparr>wait_timer := Some 2, world := 1\<rparr>"]
      first_check lost_run
    by simp
  then have lost: "element_call sim_env detached (Some (returns ())) sim_state =
      (Inl StaleElementReferenceException, sim_state\<lparr>wait_timer := Some 2, world := 2\<rparr>)"
    by (simp add: returns_def release_timer_def sim_env_simps sim_state_simps flaky_simps detached_simps tick_def)
  from first_check first_run recovered lost_run lost show ?thesis by simp
qed

lemma element_call_timer_steps:
  fixes env :: "('h, 't, 'w) env" and action :: "(('h, 't, 'w) state, 'a) act"
  assumes "check = (case exist_check of None \<Rightarrow> wait_for_exists env | Some c \<Rightarrow> c)"
    and "body = try_except (and_then check (\<lambda>_. action)) is_stale (\<lambda>e. and_then check (\<lambda>_. action))"
    and "entry = (if timer_locked env (wait_timer s) = PyNone
                  then s\<lparr>wait_timer := timer_new env (default_timeout s) s\<rparr> else s)"
    and "body entry = (r, s')"
  shows "element_call env action exist_check s =
           (r, if timer_locked env (wait_timer s') = PyNone
               then s'\<lparr>wait_timer := timer_reset env (wait_timer s')\<rparr> else s')"
  using assms
  by (auto simp: element_call_def try_finally_def install_timer_def release_timer_def Let_def
        split: if_splits)

text \<open>
  Claim C2 says that \<open>_element_call\<close> installs a timer only when no outer wait holds one,
  that the call which installed the timer resets it on every exit path, and that a chain of
  nested waits is therefore governed by one deadline. The code tests
  \<open>Wait.timer.locked is None\<close> twice: on entry, and again in the \<open>finally\<close> clause on the
  timer that is current at that moment; it does not remember whether this call installed the
  timer. Whatever the \<open>Timer\<close> class is, one half of the claim fails for a call that starts
  with an unlocked timer and installs \<open>fresh\<close>. If \<open>fresh\<close> reads as locked, the installing
  call leaves it in place, on normal return and on an exception alike, and a later top-level
  call (at any later state that still holds \<open>fresh\<close>) runs under that old deadline. If
  \<open>fresh\<close> reads as unlocked, a call nested in the first one installs a timer of its own,
  built at that moment, in place of the one the outer call installed.
\<close>

theorem element_call_timer_not_scoped:
  fixes env :: "('h, 't, 'w) env"
  assumes unlocked: "timer_locked env (wait_timer s) = PyNone"
    and fresh: "fresh = timer_new env (default_timeout s) s"
  shows "(timer_locked env fresh \<noteq> PyNone \<longrightarrow>
            element_call env (returns v) (Some (returns ())) s =
              (Inr v, s\<lparr>wait_timer := fresh\<rparr>)
          \<and> element_call env (raises e) (Some (returns ())) s =
              (Inl e, s\<lparr>wait_timer := fresh\<rparr>)
          \<and> (wait_timer later = fresh \<longrightarrow>
               element_call env current_timer (Some (returns ())) later = (Inr fresh, later)))
       \<and> (timer_locked env fresh = PyNone \<longrightarrow>
            fst (element_call env (element_call env current_timer (Some (returns ())))
                   (Some (returns ())) s) =
              Inr (timer_new env (default_timeout s) (s\<lparr>wait_timer := fresh\<rparr>)))"
proof -
  have leak_value: "element_call env (returns v) (Some (returns ())) s =
      (Inr v, s\<lparr>wait_timer := fresh\<rparr>)"
    if "timer_locked env fresh \<noteq> PyNone"
    using unlocked fresh that
    by (simp add: element_call_def install_timer_def release_timer_def act_defs)
  have leak_exception: "element_call env (raises e) (Some (returns ())) s =
      (Inl e, s\<lparr>wait_timer := fresh\<rparr>)"
    if "timer_locked env fresh \<noteq> PyNone"
    using unlocked fresh that
    by (cases e) (simp_all add: element_call_def install_timer_def release_timer_def act_defs)
  have old_deadline: "element_call env current_timer (Some (returns ())) later =
      (Inr fresh, later)"
    if "timer_locked env fresh \<noteq> PyNone" "wait_timer later = fresh"
    using that
    by (simp add: element_call_def install_timer_def release_timer_def act_defs
          current_timer_def)
  have overwrite: "fst (element_call env (element_call env current_timer (Some (returns ())))
        (Some (returns ())) s) =
      Inr (timer_new env (default_timeout s) (s\<lparr>wait_timer := fresh\<rparr>))"
    if "timer_locked env fresh = PyNone"
    using unlocked fresh that
    by (simp add: element_call_def install_timer_def release_timer_def act_defs
          current_timer_def)
  show ?thesis
    using leak_value leak_exception old_deadline overwrite by blast
qed

theorem element_call_timer_not_scoped_witness:
  "timer_locked sim_env (wait_timer sim_state) = PyNone
 \<and> timer_locked sim_env (timer_new sim_env (default_timeout sim_state) sim_state) \<noteq> PyNone
 \<and> element_call sim_env (returns True) (Some (returns ())) sim_state =
      (Inr True, sim_state\<lparr>wait_timer := Some 2\<rparr>)
 \<and> element_call sim_env (raises TimeoutError) (Some (returns ())) sim_state =
      (Inl TimeoutError :: exn + bool, sim_state\<lparr>wait_timer := Some 2\<rparr>)
 \<and> element_call sim_env current_timer (Some (returns ()))
        (sim_state\<lparr>wait_timer := Some 2, world := 100\<rparr>) =
      (Inr (Some 2), sim_state\<lparr>wait_timer := Some 2, world := 100\<rparr>)
 \<and> timer_locked unlocking_env (wait_timer (sim_state\<lparr>world := 5\<rparr>)) = PyNone
 \<and> timer_new unlocking_env (default_timeout (sim_state\<lparr>world := 5\<rparr>)) (sim_state\<lparr>world := 5\<rparr>)
      = Some 7
 \<and> fst (element_call unlocking_env
          (and_then (\<lambda>s. (Inr (), tick s))
             (\<lambda>_. element_call unlocking_env current_timer (Some (returns ()))))
          (Some (returns ())) (sim_state\<lparr>world := 5\<rparr>)) = Inr (Some 8)
 \<and> fst (element_call unlocking_env (element_call unlocking_env current_timer (Some (returns ())))
          (Some (returns ())) (sim_state\<lparr>world := 5\<rparr>)) = Inr (Some 7)"
proof -
  have unlocked: "timer_locked sim_env (wait_timer sim_state) = PyNone"
    by (simp add: sim_env_simps sim_state_simps)
  have fresh: "Some 2 = timer_new sim_env (default_timeout sim_state) sim_state"
    by (simp add: sim_env_simps sim_state_simps)
  have held: "timer_locked sim_env (Some 2) \<noteq> PyNone"
    by (simp add: sim_env_simps)
  have later: "wait_timer (sim_state\<lparr>wait_timer := Some 2, world := 100\<rparr>) = Some 2"
    by simp
  from element_call_timer_not_scoped [OF unlocked fresh, where v = True and e = TimeoutError
      and later = "sim_state\<lparr>wait_timer := Some 2, world := 100\<rparr>"] held later
  have leak: "element_call sim_env (returns True) (Some (returns ())) sim_state =
        (Inr True, sim_state\<lparr>wait_timer := Some 2\<rparr>)
     \<and> element_call sim_env (raises TimeoutError) (Some (returns ())) sim_state =
        (Inl TimeoutError :: exn + bool, sim_state\<lparr>wait_timer := Some 2\<rparr>)
     \<and> element_call sim_env current_timer (Some (returns ()))
          (sim_state\<lparr>wait_timer := Some 2, world := 100\<rparr>) =
        (Inr (Some 2), sim_state\<lparr>wait_timer := Some 2, world := 100\<rparr>)"
    by blast
  have unlocked': "timer_locked unlocking_env (wait_timer (sim_state\<lparr>world := 5\<rparr>)) = PyNone"
    by (simp add: unlocking_env_simps)
  have fresh': "Some 7 =
      timer_new unlocking_env (default_timeout (sim_state\<lparr>world := 5\<rparr>)) (sim_state\<lparr>world := 5\<rparr>)"
    by (simp add: unlocking_env_simps sim_state_def)
  have free: "timer_locked unlocking_env (Some 7) = PyNone"
    by (simp add: unlocking_env_simps)
  have rebuilt: "timer_new unlocking_env (default_timeout (sim_state\<lparr>world := 5\<rparr>))
        (sim_state\<lparr>world := 5, wait_timer := Some 7\<rparr>) = Some 7"
    by (simp add: unlocking_env_simps sim_state_def)
  from element_call_timer_not_scoped [OF unlocked' fresh', where v = True and e = TimeoutError
      and later = "sim_state"] free
  have "fst (element_call unlocking_env
        (element_call unlocking_env current_timer (Some (returns ())))
        (Some (returns ())) (sim_state\<lparr>world := 5\<rparr>)) =
      Inr (timer_new unlocking_env (default_timeout (sim_state\<lparr>world := 5\<rparr>))
             (sim_state\<lparr>world := 5, wait_timer := Some 7\<rparr>))"
    by simp
  with rebuilt have nested: "fst (element_call unlocking_env
        (element_call unlocking_env current_timer (Some (returns ())))
        (Some (returns ())) (sim_state\<lparr>world := 5\<rparr>)) = Inr (Some 7)"
    by simp
  have restarted: "fst (element_call unlocking_env
        (and_then (\<lambda>s. (Inr (), tick s))
           (\<lambda>_. element_call unlocking_env current_timer (Some (returns ()))))
        (Some (returns ())) (sim_state\<lparr>world := 5\<rparr>)) = Inr (Some 8)"
    by (simp add: call_defs act_defs current_timer_def unlocking_env_simps sim_state_def tick_def)
  from unlocked fresh held leak unlocked' fresh' nested restarted show ?thesis
    by simp
qed

section \<open>Waiting for an element\<close>



text \<open>
  Claim C4: with relaxed locating disabled, \<open>wait_for_exists\<close> is one call of
  \<open>assert_exists\<close>: it does not depend on \<open>wait_until\<close> or on the scope's
  \<open>wait_for_exists\<close>, and when the one \<open>locate\<close> it performs (for an element without a
  handle, or with a stale one) yields no element, it raises the unknown-object exception
  from the state that locate left; when the locate yields a handle, the handle is cached
  and the call succeeds.
\<close>

theorem wait_for_exists_strict_single_attempt:
  assumes strict: "\<not> relaxed_locate s"
  shows "wait_for_exists env s = assert_exists env s
       \<and> wait_for_exists (env\<lparr>wait_until := w, scope_wait_for_exists := q\<rparr>) s = assert_exists env s
       \<and> (element s = None \<and> locate env s = (Inr None, s1) \<longrightarrow>
            wait_for_exists env s =
              (Inl (UnknownObjectException (unable_to_locate (repr env (s1\<lparr>element := None\<rparr>)))),
               s1\<lparr>element := None\<rparr>))
       \<and> (element s = Some h \<and> selector s \<noteq> [] \<and> stale env s = (Inr True, s0) \<and>
            locate env s0 = (Inr None, s1) \<longrightarrow>
            wait_for_exists env s =
              (Inl (UnknownObjectException (unable_to_locate (repr env (s1\<lparr>element := None\<rparr>)))),
               s1\<lparr>element := None\<rparr>))
       \<and> (element s = None \<and> locate env s = (Inr (Some h'), s1) \<longrightarrow>
            wait_for_exists env s = (Inr (), s1\<lparr>element := Some h'\<rparr>))"
proof -
  have same: "wait_for_exists env s = assert_exists env s"
    using strict by (simp add: wait_for_exists_def)
  have no_polling:
    "wait_for_exists (env\<lparr>wait_until := w, scope_wait_for_exists := q\<rparr>) s = assert_exists env s"
    using strict by (simp add: wait_for_exists_def assert_exists_ignores_waiting)
  have miss: "assert_exists env s =
      (Inl (UnknownObjectException (unable_to_locate (repr env (s1\<lparr>element := None\<rparr>)))),
       s1\<lparr>element := None\<rparr>)"
    if "element s = None" "locate env s = (Inr None, s1)"
    using that by (simp add: assert_exists_unresolved assert_element_found_cases)
  have miss_stale: "assert_exists env s =
      (Inl (UnknownObjectException (unable_to_locate (repr env (s1\<lparr>element := None\<rparr>)))),
       s1\<lparr>element := None\<rparr>)"
    if "element s = Some h" "selector s \<noteq> []" "stale env s = (Inr True, s0)"
       "locate env s0 = (Inr None, s1)"
    using that by (simp add: assert_exists_cached assert_element_found_cases)
  have hit: "assert_exists env s = (Inr (), s1\<lparr>element := Some h'\<rparr>)"
    if "element s = None" "locate env s = (Inr (Some h'), s1)"
    using that by (simp add: assert_exists_unresolved assert_element_found_cases)
  show ?thesis
    using same no_polling miss miss_stale hit by simp
qed

theorem wait_for_exists_strict_single_attempt_witness:
  "\<not> relaxed_locate (sim_state\<lparr>relaxed_locate := False\<rparr>)
 \<and> locate sim_env (sim_state\<lparr>relaxed_locate := False\<rparr>) =
      (Inr None, sim_state\<lparr>relaxed_locate := False, world := 1\<rparr>)
 \<and> wait_for_exists sim_env (sim_state\<lparr>relaxed_locate := False\<rparr>) =
      (Inl (UnknownObjectException ''unable to locate element: #<#Element: located: False; {selector}>''),
       sim_state\<lparr>relaxed_locate := False, world := 1, element := None\<rparr>)"
proof -
  have strict: "\<not> relaxed_locate (sim_state\<lparr>relaxed_locate := False\<rparr>)"
    by simp
  have unresolved: "element (sim_state\<lparr>relaxed_locate := False\<rparr>) = None"
    by (simp add: sim_state_def)
  have miss: "locate sim_env (sim_state\<lparr>relaxed_locate := False\<rparr>) =
      (Inr None, sim_state\<lparr>relaxed_locate := False, world := 1\<rparr>)"
    by (simp add: sim_eval)
  have shown: "unable_to_locate
        (repr sim_env (sim_state\<lparr>relaxed_locate := False, world := 1, element := None\<rparr>)) =
      ''unable to locate element: #<#Element: located: False; {selector}>''"
    by (simp add: repr_defs unable_to_locate_def sim_env_simps sim_state_def)
  from wait_for_exists_strict_single_attempt [OF strict, where env = sim_env
      and ?s1.0 = "sim_state\<lparr>relaxed_locate := False, world := 1\<rparr>"
      and w = "\<lambda>arg. returns ()" and q = "returns ()"]
    unresolved miss
  have "wait_for_exists sim_env (sim_state\<lparr>relaxed_locate := False\<rparr>) =
      (Inl (UnknownObjectException (unable_to_locate
         (repr sim_env (sim_state\<lparr>relaxed_locate := False, world := 1, element := None\<rparr>)))),
       sim_state\<lparr>relaxed_locate := False, world := 1, element := None\<rparr>)"
    by blast
  with shown strict miss show ?thesis by simp
qed



text \<open>
  Claim C6: for an element that holds a non-empty selector and a cached handle for which
  the \<open>stale\<close> property is \<open>False\<close>, \<open>assert_exists\<close> succeeds in the state the liveness
  probe left, \<open>exists\<close> is \<open>True\<close> and the relaxed \<open>wait_for_exists\<close> returns by its
  shortcut; the outcome is the same whatever the locator and the scope's context
  methods are, so neither a locate query nor a context check is executed.
\<close>

theorem assert_exists_cached_fast_path:
  assumes "element s = Some h" and "selector s \<noteq> []" and "stale env s = (Inr False, s1)"
  shows "assert_exists env s = (Inr (), s1)
       \<and> exists env s = (Inr True, s1)
       \<and> (relaxed_locate s \<longrightarrow> wait_for_exists env s = (Inr (), s1))
       \<and> assert_exists (env\<lparr>locator_locate := l, scope_assert_exists := c, scope_switch_to := c'\<rparr>) s
           = (Inr (), s1)"
  using assms
  by (simp add: assert_exists_def exists_def wait_for_exists_def act_defs stale_update_irrelevant)

theorem assert_exists_cached_fast_path_witness:
  "element (sim_state\<lparr>element := Some 7\<rparr>) = Some 7
 \<and> selector (sim_state\<lparr>element := Some 7\<rparr>) \<noteq> []
 \<and> stale sim_env (sim_state\<lparr>element := Some 7\<rparr>) = (Inr False, sim_state\<lparr>element := Some 7, world := 1\<rparr>)
 \<and> assert_exists sim_env (sim_state\<lparr>element := Some 7\<rparr>) = (Inr (), sim_state\<lparr>element := Some 7, world := 1\<rparr>)
 \<and> wait_for_exists sim_env (sim_state\<lparr>element := Some 7\<rparr>) = (Inr (), sim_state\<lparr>element := Some 7, world := 1\<rparr>)"
proof -
  have cached: "element (sim_state\<lparr>element := Some 7\<rparr>) = Some 7"
    and kept: "selector (sim_state\<lparr>element := Some 7\<rparr>) \<noteq> []"
    and relaxed: "relaxed_locate (sim_state\<lparr>element := Some 7\<rparr>)"
    by (simp_all add: sim_state_def)
  have live: "stale sim_env (sim_state\<lparr>element := Some 7\<rparr>) =
      (Inr False, sim_state\<lparr>element := Some 7, world := 1\<rparr>)"
    by (simp add: sim_eval)
  from assert_exists_cached_fast_path [OF cached kept live] cached kept live relaxed show ?thesis
    by simp
qed

section \<open>The row selector builder and the positional index\<close>

lemma row_builder_guard_reads_keys:
  assumes "\<not> list_ex is_pattern (dict_keys selectors)"
    and "has_truthy (PyStr ''tag_name'') selectors"
  shows "fst (build_wd_selector scope_tag attribute_expression selectors) \<noteq> Inr None"
proof -
  have "truthy (fst (dict_pop (PyStr ''tag_name'') PyNone selectors))"
    using assms(2) by (simp add: dict_pop_def has_truthy_def dict_get_def split: option.splits)
  then show ?thesis
    using assms(1)
    by (simp add: build_wd_selector_def Let_def split: prod.splits sum.splits)
qed

text \<open>
  Claim C7 says that a selector in which some constraint value is a compiled regular
  expression makes the row builder return \<open>None\<close>. The test
  \<open>any(isinstance(selector, re._pattern_type) for selector in selectors)\<close> iterates the
  dict, that is its keys, so a regular expression among the values is not seen: for the
  selector \<open>{'tag_name': 'tr', 'id': re.compile('foo')}\<close> the builder goes on, whatever
  the collaborators do, and never returns \<open>None\<close>; with a scope that is a table and
  an attribute compiler that yields nothing it returns the plain row query. The same
  holds for every selector with string keys and a truthy \<open>tag_name\<close>, whatever its values
  are (\<open>row_builder_guard_reads_keys\<close>).
\<close>

theorem row_builder_regex_value_not_deferred:
  "fst (build_wd_selector scope_tag attribute_expression
          [(PyStr ''tag_name'', PyStr ''tr''), (PyStr ''id'', PyRegex ''foo'')]) \<noteq> Inr None
 \<and> build_wd_selector (Inr ''table'') (\<lambda>s. (Inr None, s))
        [(PyStr ''tag_name'', PyStr ''tr''), (PyStr ''id'', PyRegex ''foo'')] =
      (Inr (Some [''xpath'', ''./tr | ./body/tr | ./thead/tr | ./tfoot/tr'']),
       [(PyStr ''id'', PyRegex ''foo'')])"
  by (simp add: build_wd_selector_def dict_keys_def dict_pop_def Let_def
        split: sum.splits prod.splits)

text \<open>
  Claim C8: a selector without a truthy \<open>tag_name\<close> entry makes the row builder raise
  the internal \<open>Error\<close> (the framework's base exception, with the message
  \<open>internal error: no tag_name?!\<close>); otherwise \<open>tag_name\<close> is popped before anything is
  compiled: the attribute compiler is applied to the selector without that key, the
  builder's outcome follows the compiler's outcome on that reduced selector, and the dict
  the caller holds afterwards is the one the compiler left. The keys of a selector are
  attribute names, hence strings; the theorem assumes that no key is a compiled pattern.
\<close>

theorem row_builder_requires_tag_name:
  assumes keys: "\<not> list_ex is_pattern (dict_keys selectors)"
    and rest: "rest = filter (\<lambda>kv. fst kv \<noteq> PyStr ''tag_name'') selectors"
  shows "(\<not> has_truthy (PyStr ''tag_name'') selectors \<longrightarrow>
            build_wd_selector scope_tag attribute_expression selectors =
              (Inl (Error ''internal error: no tag_name?!''), rest))
       \<and> PyStr ''tag_name'' \<notin> set (dict_keys rest)
       \<and> (has_truthy (PyStr ''tag_name'') selectors \<and> scope_tag = Inl e \<longrightarrow>
            build_wd_selector scope_tag attribute_expression selectors = (Inl e, rest))
       \<and> (has_truthy (PyStr ''tag_name'') selectors \<and> scope_tag = Inr t \<longrightarrow>
            snd (build_wd_selector scope_tag attribute_expression selectors) =
              snd (attribute_expression rest)
          \<and> (fst (attribute_expression rest) = Inl e \<longrightarrow>
               fst (build_wd_selector scope_tag attribute_expression selectors) = Inl e)
          \<and> (fst (attribute_expression rest) = Inr a \<longrightarrow>
               (\<exists>xpath. fst (build_wd_selector scope_tag attribute_expression selectors) =
                  Inr (Some [''xpath'', xpath]))))"
proof -
  have popped: "dict_pop (PyStr ''tag_name'') PyNone selectors =
      (case dict_get (PyStr ''tag_name'') selectors of None \<Rightarrow> PyNone | Some v \<Rightarrow> v, rest)"
    using rest by (simp add: dict_pop_def dict_get_def)
  have truth: "truthy (case dict_get (PyStr ''tag_name'') selectors of None \<Rightarrow> PyNone | Some v \<Rightarrow> v)
      = has_truthy (PyStr ''tag_name'') selectors"
    by (simp add: has_truthy_def split: option.splits)
  have absent: "build_wd_selector scope_tag attribute_expression selectors =
      (Inl (Error ''internal error: no tag_name?!''), rest)"
    if "\<not> has_truthy (PyStr ''tag_name'') selectors"
    using keys that by (simp add: build_wd_selector_def popped truth)
  have removed: "PyStr ''tag_name'' \<notin> set (dict_keys rest)"
    using rest by (auto simp: dict_keys_def)
  have scope_raises: "build_wd_selector scope_tag attribute_expression selectors = (Inl e, rest)"
    if "has_truthy (PyStr ''tag_name'') selectors" "scope_tag = Inl e"
    using keys that by (simp add: build_wd_selector_def popped truth)
  obtain r selectors2 where compiled: "attribute_expression rest = (r, selectors2)"
    by (cases "attribute_expression rest")
  have after: "snd (build_wd_selector scope_tag attribute_expression selectors) =
      snd (attribute_expression rest)"
    if "has_truthy (PyStr ''tag_name'') selectors" "scope_tag = Inr t"
    using keys that compiled
    by (cases r) (simp_all add: build_wd_selector_def popped truth Let_def)
  have fails: "fst (build_wd_selector scope_tag attribute_expression selectors) = Inl e"
    if "has_truthy (PyStr ''tag_name'') selectors" "scope_tag = Inr t"
       "fst (attribute_expression rest) = Inl e"
    using keys that compiled
    by (cases r) (simp_all add: build_wd_selector_def popped truth Let_def)
  have builds: "\<exists>xpath. fst (build_wd_selector scope_tag attribute_expression selectors) =
      Inr (Some [''xpath'', xpath])"
    if "has_truthy (PyStr ''tag_name'') selectors" "scope_tag = Inr t"
       "fst (attribute_expression rest) = Inr a"
    using keys that compiled
    by (cases r) (simp_all add: build_wd_selector_def popped truth Let_def)
  show ?thesis
    using absent removed scope_raises after fails builds by blast
qed

theorem row_builder_requires_tag_name_witness:
  "\<not> list_ex is_pattern (dict_keys [(PyStr ''id'', PyStr ''foo'')])
 \<and> \<not> has_truthy (PyStr ''tag_name'') [(PyStr ''id'', PyStr ''foo'')]
 \<and> build_wd_selector (Inr ''table'') (\<lambda>s. (Inr (Some ''@id''), s)) [(PyStr ''id'', PyStr ''foo'')] =
      (Inl (Error ''internal error: no tag_name?!''), [(PyStr ''id'', PyStr ''foo'')])
 \<and> \<not> list_ex is_pattern (dict_keys [(PyStr ''tag_name'', PyStr ''tr''), (PyStr ''id'', PyStr ''foo'')])
 \<and> has_truthy (PyStr ''tag_name'') [(PyStr ''tag_name'', PyStr ''tr''), (PyStr ''id'', PyStr ''foo'')]
 \<and> snd (build_wd_selector (Inr ''table'') (\<lambda>s. (Inr (Some ''@id''), s))
        [(PyStr ''tag_name'', PyStr ''tr''), (PyStr ''id'', PyStr ''foo'')]) =
      [(PyStr ''id'', PyStr ''foo'')]"
proof -
  have keys1: "\<not> list_ex is_pattern (dict_keys [(PyStr ''id'', PyStr ''foo'')])"
    and keys2: "\<not> list_ex is_pattern
        (dict_keys [(PyStr ''tag_name'', PyStr ''tr''), (PyStr ''id'', PyStr ''foo'')])"
    by (simp_all add: dict_keys_def)
  have rest1: "[(PyStr ''id'', PyStr ''foo'')] =
      filter (\<lambda>kv. fst kv \<noteq> PyStr ''tag_name'') [(PyStr ''id'', PyStr ''foo'')]"
    and rest2: "[(PyStr ''id'', PyStr ''foo'')] =
      filter (\<lambda>kv. fst kv \<noteq> PyStr ''tag_name'')
        [(PyStr ''tag_name'', PyStr ''tr''), (PyStr ''id'', PyStr ''foo'')]"
    by simp_all
  have lacks: "\<not> has_truthy (PyStr ''tag_name'') [(PyStr ''id'', PyStr ''foo'')]"
    and holds: "has_truthy (PyStr ''tag_name'')
        [(PyStr ''tag_name'', PyStr ''tr''), (PyStr ''id'', PyStr ''foo'')]"
    by (simp_all add: has_truthy_def dict_get_def)
  from row_builder_requires_tag_name [OF keys1 rest1,
      where scope_tag = "Inr ''table''" and attribute_expression = "\<lambda>s. (Inr (Some ''@id''), s)"
        and e = TimeoutError and a = "Some ''@id''" and t = "''table''"]
    lacks
  have raised: "build_wd_selector (Inr ''table'') (\<lambda>s. (Inr (Some ''@id''), s))
        [(PyStr ''id'', PyStr ''foo'')] =
      (Inl (Error ''internal error: no tag_name?!''), [(PyStr ''id'', PyStr ''foo'')])"
    by simp
  from row_builder_requires_tag_name [OF keys2 rest2,
      where scope_tag = "Inr ''table''" and attribute_expression = "\<lambda>s. (Inr (Some ''@id''), s)"
        and t = "''table''" and e = TimeoutError and a = "Some ''@id''"]
    holds
  have "snd (build_wd_selector (Inr ''table'') (\<lambda>s. (Inr (Some ''@id''), s))
        [(PyStr ''tag_name'', PyStr ''tr''), (PyStr ''id'', PyStr ''foo'')]) =
      snd ((\<lambda>s. (Inr (Some ''@id''), s)) [(PyStr ''id'', PyStr ''foo'')])"
    by simp
  with keys1 keys2 lacks holds raised show ?thesis by simp
qed

text \<open>
  Claim C9, on the index handling modelled from the spec: index \<open>0\<close> leaves the
  expression without a positional wrapper; a positive index \<open>k\<close> wraps the whole
  expression with position \<open>k + 1\<close>; index \<open>-1\<close> wraps it with \<open>last()\<close>; index \<open>-k\<close> for
  \<open>k > 1\<close> wraps it with \<open>last()-(k-1)\<close>; and a value that is not an integer fails with
  a type error and produces no query.
\<close>

theorem add_index_positions:
  "add_index xpath (PyInt 0) = Inr xpath
 \<and> (0 < k \<longrightarrow> add_index xpath (PyInt k) = Inr (''('' @ xpath @ '')['' @ str_int (k + 1) @ '']''))
 \<and> add_index xpath (PyInt (- 1)) = Inr (''('' @ xpath @ '')[last()]'')
 \<and> (1 < k \<longrightarrow>
      add_index xpath (PyInt (- k)) = Inr (''('' @ xpath @ '')[last()-'' @ str_int (k - 1) @ '']''))
 \<and> ((\<forall>i. v \<noteq> PyInt i) \<longrightarrow> add_index xpath v = Inl TypeError)"
  by (cases v) (simp_all add: add_index_def)

theorem add_index_positions_witness:
  "add_index ''.//input'' (PyInt 0) = Inr ''.//input''
 \<and> add_index ''.//input'' (PyInt 4) = Inr ''(.//input)[5]''
 \<and> add_index ''.//input'' (PyInt 14) = Inr ''(.//input)[15]''
 \<and> add_index ''.//input'' (PyInt (- 1)) = Inr ''(.//input)[last()]''
 \<and> add_index ''.//input'' (PyInt (- 3)) = Inr ''(.//input)[last()-2]''
 \<and> add_index ''.//input'' (PyStr ''foo'') = Inl TypeError"
proof -
  have digits: "str_int 5 = ''5''" "str_int 15 = ''15''" "str_int 2 = ''2''"
    by (simp_all add: str_int_def str_nat.simps)
  from add_index_positions [of "''.//input''" 4 "PyStr ''foo''"]
    add_index_positions [of "''.//input''" 14 "PyStr ''foo''"]
    add_index_positions [of "''.//input''" 3 "PyStr ''foo''"]
    digits
  show ?thesis by simp
qed

section \<open>Staleness\<close>

text \<open>
  Claim C10, as amended: \<open>stale\<close> on an element without a handle raises \<open>Error\<close>; with a
  cached handle it is \<open>True\<close> when the liveness probe raises the driver's staleness
  exception, \<open>False\<close> when the probe completes, and any other exception of the probe
  propagates.
\<close>

theorem stale_outcomes:
  "(element s = None \<longrightarrow>
      stale env s = (Inl (Error ''Can not check staleness of unused element''), s))
 \<and> (element s = Some h \<and> wire_enabled env h s = (Inl StaleElementReferenceException, s1) \<longrightarrow>
      stale env s = (Inr True, s1))
 \<and> (element s = Some h \<and> wire_enabled env h s = (Inr b, s1) \<longrightarrow> stale env s = (Inr False, s1))
 \<and> (element s = Some h \<and> wire_enabled env h s = (Inl e, s1) \<and> e \<noteq> StaleElementReferenceException \<longrightarrow>
      stale env s = (Inl e, s1))"
  by (cases e; simp add: stale_def act_defs)

theorem stale_outcomes_witness:
  "stale sim_env sim_state = (Inl (Error ''Can not check staleness of unused element''), sim_state)
 \<and> stale sim_env (sim_state\<lparr>element := Some 0\<rparr>) = (Inr True, sim_state\<lparr>element := Some 0, world := 1\<rparr>)
 \<and> stale sim_env (sim_state\<lparr>element := Some 7\<rparr>) = (Inr False, sim_state\<lparr>element := Some 7, world := 1\<rparr>)
 \<and> stale sim_env (sim_state\<lparr>element := Some 13\<rparr>) =
      (Inl (DriverException ''no such window''), sim_state\<lparr>element := Some 13, world := 1\<rparr>)"
proof -
  have unused: "element sim_state = None"
    by (simp add: sim_state_def)
  have detached: "element (sim_state\<lparr>element := Some 0\<rparr>) = Some 0 \<and>
      wire_enabled sim_env 0 (sim_state\<lparr>element := Some 0\<rparr>) =
        (Inl StaleElementReferenceException, sim_state\<lparr>element := Some 0, world := 1\<rparr>)"
    by (simp add: sim_env_simps sim_state_def tick_def)
  have attached: "element (sim_state\<lparr>element := Some 7\<rparr>) = Some 7 \<and>
      wire_enabled sim_env 7 (sim_state\<lparr>element := Some 7\<rparr>) =
        (Inr True, sim_state\<lparr>element := Some 7, world := 1\<rparr>)"
    by (simp add: sim_env_simps sim_state_def tick_def)
  have broken: "element (sim_state\<lparr>element := Some 13\<rparr>) = Some 13 \<and>
      wire_enabled sim_env 13 (sim_state\<lparr>element := Some 13\<rparr>) =
        (Inl (DriverException ''no such window''), sim_state\<lparr>element := Some 13, world := 1\<rparr>) \<and>
      DriverException ''no such window'' \<noteq> StaleElementReferenceException"
    by (simp add: sim_env_simps sim_state_def tick_def)
  show ?thesis
    using stale_outcomes [where s = sim_state and env = sim_env] unused
      stale_outcomes [where s = "sim_state\<lparr>element := Some 0\<rparr>" and h = 0 and env = sim_env] detached
      stale_outcomes [where s = "sim_state\<lparr>element := Some 7\<rparr>" and h = 7 and env = sim_env and b = True]
      attached
      stale_outcomes [where s = "sim_state\<lparr>element := Some 13\<rparr>" and h = 13 and env = sim_env
        and e = "DriverException ''no such window''"] broken
    by simp
qed

text \<open>
  The claim as stated has \<open>stale\<close> return \<open>False\<close> whenever the probe does not raise the
  staleness exception. On the simulated page the probe of handle 13 raises a driver error
  of another kind, and \<open>stale\<close> raises that error instead of returning \<open>False\<close>.
\<close>

theorem stale_probe_failure_counterexample:
  "element (sim_state\<lparr>element := Some 13\<rparr>) = Some 13
 \<and> fst (wire_enabled sim_env 13 (sim_state\<lparr>element := Some 13\<rparr>)) \<noteq> Inl StaleElementReferenceException
 \<and> fst (stale sim_env (sim_state\<lparr>element := Some 13\<rparr>)) \<noteq> Inr False
 \<and> fst (stale sim_env (sim_state\<lparr>element := Some 13\<rparr>)) = Inl (DriverException ''no such window'')"
  by (simp add: sim_eval)

end
